theory Spec2Isabelle
  imports Complex_Main "HOL-Library.AList"
begin

section \<open>Timestamps and their formatting\<close>

text \<open>
  \<^verbatim>\<open>time_series.py\<close> works on a pandas \<^verbatim>\<open>DatetimeIndex\<close> of hour-resolution
  timestamps.  A timestamp is modelled, as pandas stores it, by its offset from the epoch
  1970-01-01 00:00, counted here in whole hours.  pandas keeps the offset in a signed
  64-bit count of nanoseconds, so a whole-hour timestamp lies between -2562047 and
  2562047 hours (years 1677 to 2262).
\<close>

type_synonym timestamp = int

definition valid_timestamp :: "timestamp \<Rightarrow> bool" where
  "valid_timestamp t \<longleftrightarrow> - 2562047 \<le> t \<and> t \<le> 2562047"

text \<open>The proleptic Gregorian date (year, month, day) of a day count since the epoch.\<close>

definition civil_from_days :: "int \<Rightarrow> int \<times> int \<times> int" where
  "civil_from_days z0 =
     (let z = z0 + 719468;
          era = z div 146097;
          doe = z - era * 146097;
          yoe = (doe - doe div 1460 + doe div 36524 - doe div 146096) div 365;
          y = yoe + era * 400;
          doy = doe - (365 * yoe + yoe div 4 - yoe div 100);
          mp = (5 * doy + 2) div 153;
          d = doy - (153 * mp + 2) div 5 + 1;
          m = (if mp < 10 then mp + 3 else mp - 9)
      in (if m \<le> 2 then y + 1 else y, m, d))"

definition year_of :: "timestamp \<Rightarrow> nat" where
  "year_of t = nat (fst (civil_from_days (t div 24)))"

definition month_of :: "timestamp \<Rightarrow> nat" where
  "month_of t = nat (fst (snd (civil_from_days (t div 24))))"

definition day_of :: "timestamp \<Rightarrow> nat" where
  "day_of t = nat (snd (snd (civil_from_days (t div 24))))"

definition hour_of :: "timestamp \<Rightarrow> nat" where
  "hour_of t = nat (t mod 24)"

text \<open>Decimal digits of a natural number, and zero padding to a minimal width.\<close>

fun digits :: "nat \<Rightarrow> string" where
  "digits n = (if n < 10 then [char_of (48 + n)]
               else digits (n div 10) @ [char_of (48 + n mod 10)])"

declare digits.simps [simp del]

definition zero_pad :: "nat \<Rightarrow> nat \<Rightarrow> string" where
  "zero_pad w n = replicate (w - length (digits n)) (CHR ''0'') @ digits n"

text \<open>\<^verbatim>\<open>strftime('%Y%m%d%H')\<close>: year, month, day and hour, zero padded.\<close>

definition strftime :: "timestamp \<Rightarrow> string" where
  "strftime t = zero_pad 4 (year_of t) @ zero_pad 2 (month_of t)
                @ zero_pad 2 (day_of t) @ zero_pad 2 (hour_of t)"

text \<open>The 8-digit date \<^verbatim>\<open>YYYYMMDD\<close> and the 2-digit hour \<^verbatim>\<open>HH\<close> of a timestamp.\<close>

definition date8 :: "timestamp \<Rightarrow> string" where
  "date8 t = zero_pad 4 (year_of t) @ zero_pad 2 (month_of t) @ zero_pad 2 (day_of t)"

definition hour2 :: "timestamp \<Rightarrow> string" where
  "hour2 t = zero_pad 2 (hour_of t)"

section \<open>Path builder\<close>

text \<open>
  \<^verbatim>\<open>get_gsi_fps(path, var, anl_ges, date_times)\<close>: the timestamps are formatted, each
  string is cut into its first eight characters (\<^verbatim>\<open>s[:8]\<close>) and its last two
  (\<^verbatim>\<open>s[-2:]\<close>), and the two pieces are interpolated into the file name.
\<close>

definition day_str :: "string \<Rightarrow> string" where
  "day_str s = take 8 s"

definition hour_str :: "string \<Rightarrow> string" where
  "hour_str s = drop (length s - 2) s"

definition gsi_fp :: "string \<Rightarrow> string \<Rightarrow> string \<Rightarrow> string \<Rightarrow> string \<Rightarrow> string" where
  "gsi_fp path var anl_ges ds hs =
     path @ ''/RTMA_CONUS.'' @ ds @ ''/'' @ hs @ ''/diag_conv_'' @ var @ ''_'' @ anl_ges
       @ ''.'' @ ds @ hs @ ''.nc4.gz''"

definition get_gsi_fps :: "string \<Rightarrow> string \<Rightarrow> string \<Rightarrow> timestamp list \<Rightarrow> string list" where
  "get_gsi_fps path var anl_ges date_times =
     (let date_strs = map strftime date_times;
          day_strs = map day_str date_strs;
          hour_strs = map hour_str date_strs
      in map (\<lambda>(ds, hs). gsi_fp path var anl_ges ds hs) (zip day_strs hour_strs))"

section \<open>Values, errors and the outside world\<close>

text \<open>
  A float of the series is either the not-a-number marker or a number.  Numbers are
  modelled as exact reals: rounding and infinities are not modelled.
\<close>

datatype fval = NaN | Val real

text \<open>
  The exceptions the module can raise: \<^verbatim>\<open>ValueError\<close> and \<^verbatim>\<open>TypeError\<close> with their
  messages, and \<open>Raised\<close> for an exception of the diagnostic reader other than
  \<^verbatim>\<open>FileNotFoundError\<close>, which \<^verbatim>\<open>get_omfs\<close> re-raises as it is.
\<close>

datatype py_error = ValueError string | TypeError string | Raised string

record row =
  station_id :: string
  observation_type :: int
  omf_adjusted :: fval

text \<open>
  What \<^verbatim>\<open>Conventional(fp).get_data()\<close> does for a path: it raises
  \<^verbatim>\<open>FileNotFoundError\<close>, raises another exception (with its message), or returns the
  table of observation rows.
\<close>

datatype read_outcome = FileNotFound | Failed string | Data "row list"

type_synonym filesystem = "string \<Rightarrow> read_outcome"

text \<open>The commands sent to the plotting surface (\<^verbatim>\<open>matplotlib.pyplot\<close>), in order.\<close>

datatype plot_cmd =
    Figure
  | Plot "timestamp list" "fval list" string string
  | Scatter "timestamp list" "real list" string string
  | Axhline real string
  | Ylim real real
  | Ylabel string
  | Title string
  | Grid
  | Legend
  | Xticks real
  | Show

text \<open>
  The observable effects of a run: the paths the reader was asked to open, the lines
  printed, and the plotting commands issued.
\<close>

record io =
  reads :: "string list"
  stdout :: "string list"
  plt :: "plot_cmd list"

definition io0 :: io where
  "io0 = \<lparr>reads = [], stdout = [], plt = []\<rparr>"

definition print :: "string \<Rightarrow> io \<Rightarrow> io" where
  "print line st = st\<lparr>stdout := stdout st @ [line]\<rparr>"

definition draw :: "plot_cmd \<Rightarrow> io \<Rightarrow> io" where
  "draw c st = st\<lparr>plt := plt st @ [c]\<rparr>"

definition open_file :: "string \<Rightarrow> io \<Rightarrow> io" where
  "open_file fp st = st\<lparr>reads := reads st @ [fp]\<rparr>"

section \<open>Series extractor\<close>

text \<open>
  Modelled from the spec: \<^verbatim>\<open>filter_df\<close> (module \<^verbatim>\<open>filter_df\<close>, not among the
  sources).  Given a list of tables and the optional station-identifier and
  observation-type filters, it keeps the rows matching every filter that is given; a
  filter that is not given restricts nothing.
\<close>

definition keep_row :: "string list option \<Rightarrow> int list option \<Rightarrow> row \<Rightarrow> bool" where
  "keep_row station_ids obs_types r \<longleftrightarrow>
     (case station_ids of None \<Rightarrow> True | Some ids \<Rightarrow> station_id r \<in> set ids) \<and>
     (case obs_types of None \<Rightarrow> True | Some ts \<Rightarrow> observation_type r \<in> set ts)"

definition filter_df :: "row list list \<Rightarrow> string list option \<Rightarrow> int list option \<Rightarrow> row list" where
  "filter_df dfs station_ids obs_types = filter (keep_row station_ids obs_types) (concat dfs)"

text \<open>
  \<^verbatim>\<open>Series.mean()\<close> of pandas: the mean of the values that are numbers; not-a-number
  when there is none (in particular for the empty series).  It does not raise.
\<close>

definition numbers :: "fval list \<Rightarrow> real list" where
  "numbers vs = concat (map (\<lambda>v. case v of NaN \<Rightarrow> [] | Val x \<Rightarrow> [x]) vs)"

definition series_mean :: "fval list \<Rightarrow> fval" where
  "series_mean vs =
     (let xs = numbers vs
      in if xs = [] then NaN else Val (sum_list xs / real (length xs)))"


text \<open>
  The loop of \<^verbatim>\<open>get_omfs\<close> over \<^verbatim>\<open>enumerate(fps)\<close>.  The array \<^verbatim>\<open>hourly_omf\<close> is
  updated in place at index \<open>i\<close>, which is always in range.  Assigning \<^verbatim>\<open>None\<close> to
  an element of a float array stores not-a-number.
\<close>

fun get_omfs_loop ::
  "filesystem \<Rightarrow> string list option \<Rightarrow> int list option \<Rightarrow> (nat \<times> string) list
     \<Rightarrow> fval list \<Rightarrow> io \<Rightarrow> (py_error + fval list) \<times> io" where
  "get_omfs_loop fs station_ids obs_types [] hourly_omf st = (Inr hourly_omf, st)"
| "get_omfs_loop fs station_ids obs_types ((i, fp) # rest) hourly_omf st =
     (case fs fp of
        FileNotFound \<Rightarrow>
          get_omfs_loop fs station_ids obs_types rest (hourly_omf[i := NaN]) (open_file fp st)
      | Failed e \<Rightarrow>
          (Inl (Raised e), print (''Unknown error occurred: '' @ e) (open_file fp st))
      | Data df \<Rightarrow>
          (let omf_values = map omf_adjusted (filter_df [df] station_ids obs_types);
               st1 = (if length omf_values = 0
                      then print ''Filter combination yields no results'' (open_file fp st)
                      else open_file fp st)
           in get_omfs_loop fs station_ids obs_types rest
                (hourly_omf[i := series_mean omf_values]) st1))"

definition get_omfs ::
  "filesystem \<Rightarrow> string list \<Rightarrow> string list option \<Rightarrow> int list option \<Rightarrow> io
     \<Rightarrow> (py_error + fval list) \<times> io" where
  "get_omfs fs fps station_ids obs_types st =
     get_omfs_loop fs station_ids obs_types (enumerate 0 fps)
       (replicate (length fps) (Val 0)) st"

text \<open>
  The value \<^verbatim>\<open>get_omfs\<close> stores for a path that the reader finds or reports as not
  found, and the lines it prints for that path.
\<close>

definition hourly_value :: "filesystem \<Rightarrow> string list option \<Rightarrow> int list option \<Rightarrow> string \<Rightarrow> fval" where
  "hourly_value fs station_ids obs_types fp =
     (case fs fp of
        Data df \<Rightarrow> series_mean (map omf_adjusted (filter_df [df] station_ids obs_types))
      | _ \<Rightarrow> NaN)"

definition hourly_notice :: "filesystem \<Rightarrow> string list option \<Rightarrow> int list option \<Rightarrow> string \<Rightarrow> string list" where
  "hourly_notice fs station_ids obs_types fp =
     (case fs fp of
        Data df \<Rightarrow> (if filter_df [df] station_ids obs_types = []
                    then [''Filter combination yields no results''] else [])
      | _ \<Rightarrow> [])"

text \<open>No path of the list makes the reader raise anything but \<^verbatim>\<open>FileNotFoundError\<close>.\<close>

definition no_unexpected :: "filesystem \<Rightarrow> string list \<Rightarrow> bool" where
  "no_unexpected fs fps =
     list_all (\<lambda>fp. case fs fp of Failed e \<Rightarrow> False | _ \<Rightarrow> True) fps"

section \<open>Plotter\<close>

text \<open>The variable name dictionary of \<^verbatim>\<open>make_plot\<close>: display name and unit label.\<close>

definition units_mapping :: "string \<Rightarrow> (string \<times> string) option" where
  "units_mapping = map_of
     [(''t'', (''Temperature'', ''Degrees Fahrenheit'')),
      (''ps'', (''Surface Pressure'', ''Pascals'')),
      (''q'', (''Specfic Humidity'', ''G Water Vapor per KG of Air''))]"

definition colors :: "string list" where
  "colors = [''b'', ''g'', ''c'', ''m'', ''y'', ''k'']"

definition isnan :: "fval \<Rightarrow> bool" where
  "isnan v = (case v of NaN \<Rightarrow> True | Val x \<Rightarrow> False)"

definition fabs :: "fval \<Rightarrow> fval" where
  "fabs v = (case v of NaN \<Rightarrow> NaN | Val x \<Rightarrow> Val \<bar>x\<bar>)"

definition fmul :: "fval \<Rightarrow> real \<Rightarrow> fval" where
  "fmul v c = (case v of NaN \<Rightarrow> NaN | Val x \<Rightarrow> Val (x * c))"

text \<open>\<^verbatim>\<open>times[nan_indices]\<close>: the elements at the positions of a boolean mask.\<close>

definition select :: "'a list \<Rightarrow> bool list \<Rightarrow> 'a list" where
  "select xs flags = map fst (filter snd (zip xs flags))"

text \<open>
  \<^verbatim>\<open>np.nanmax\<close>: the maximum of the numbers of an array.  On an array of length zero
  it raises \<^verbatim>\<open>ValueError\<close>; on an array of not-a-numbers only it returns not-a-number.
\<close>

definition nanmax :: "fval list \<Rightarrow> py_error + fval" where
  "nanmax vs =
     (if vs = []
      then Inl (ValueError ''zero-size array to reduction operation fmax which has no identity'')
      else case numbers vs of [] \<Rightarrow> Inr NaN | x # xs \<Rightarrow> Inr (Val (fold max xs x)))"

text \<open>
  Python's \<^verbatim>\<open>max(a, b)\<close> keeps \<open>a\<close> unless \<open>b > a\<close>, and a comparison with
  not-a-number is false.
\<close>

definition py_max :: "fval \<Rightarrow> fval \<Rightarrow> fval" where
  "py_max a b =
     (case (a, b) of (Val x, Val y) \<Rightarrow> (if y > x then b else a) | _ \<Rightarrow> a)"

text \<open>
  The loop of \<^verbatim>\<open>make_plot\<close> over \<^verbatim>\<open>series.items()\<close>, carrying \<^verbatim>\<open>color_ind\<close> and
  \<^verbatim>\<open>max_val\<close>.  Plotting a series whose length differs from the time axis raises
  \<^verbatim>\<open>ValueError\<close> in \<^verbatim>\<open>plt.plot\<close>.
\<close>

fun plot_series ::
  "timestamp list \<Rightarrow> (string \<times> fval list) list \<Rightarrow> nat \<Rightarrow> fval \<Rightarrow> io
     \<Rightarrow> (py_error + fval) \<times> io" where
  "plot_series tms [] color_ind max_val st = (Inr max_val, st)"
| "plot_series tms ((key, data) # rest) color_ind max_val st =
     (if length tms \<noteq> length data
      then (Inl (ValueError ''x and y must have same first dimension''), st)
      else
        (let st1 = draw (Plot tms data (colors ! color_ind) key) st;
             color_ind1 = (color_ind + 1) mod length colors;
             nan_indices = map isnan data;
             st2 = draw (Scatter (select tms nan_indices)
                           (replicate (length (filter id nan_indices)) 0)
                           ''red'' ''No Data'') st1
         in case nanmax (map fabs data) of
              Inl e \<Rightarrow> (Inl e, st2)
            | Inr m \<Rightarrow> plot_series tms rest color_ind1 (py_max (fmul m (11 / 10)) max_val) st2))"

text \<open>
  \<^verbatim>\<open>make_plot(series, times, var)\<close> (the argument \<^verbatim>\<open>times\<close> is \<open>tms\<close> here).  \<^verbatim>\<open>units_mapping.get(var)\<close> is \<^verbatim>\<open>None\<close> for a
  variable that is not a key, and subscripting \<^verbatim>\<open>None\<close> raises \<^verbatim>\<open>TypeError\<close>.
  \<^verbatim>\<open>plt.ylim\<close> raises \<^verbatim>\<open>ValueError\<close> on a limit that is not a number.
\<close>

definition make_plot ::
  "(string \<times> fval list) list \<Rightarrow> timestamp list \<Rightarrow> string \<Rightarrow> io \<Rightarrow> (py_error + unit) \<times> io" where
  "make_plot series tms var st =
     (case units_mapping var of
        None \<Rightarrow> (Inl (TypeError (CHR 0x27 # ''NoneType'' @ CHR 0x27 # '' object is not subscriptable'')), st)
      | Some (var_name, var_units) \<Rightarrow>
          (case plot_series tms series 0 (Val 0) (draw Figure st) of
             (Inl e, st1) \<Rightarrow> (Inl e, st1)
           | (Inr max_val, st1) \<Rightarrow>
               (let st2 = draw (Axhline 0 ''Zero'') st1
                in case max_val of
                     NaN \<Rightarrow> (Inl (ValueError ''Axis limits cannot be NaN or Inf''), st2)
                   | Val m \<Rightarrow>
                       (Inr (),
                        (draw Show \<circ> draw (Xticks 45) \<circ> draw Legend \<circ> draw Grid
                          \<circ> draw (Title (var_name @ '' DA Time Series Plot''))
                          \<circ> draw (Ylabel var_units) \<circ> draw (Ylim (- m) m)) st2))))"

text \<open>
  What \<^verbatim>\<open>plt.legend()\<close> lists: one entry for every labelled artist (line, scatter
  collection, horizontal line) drawn on the current figure, that is since the last
  \<^verbatim>\<open>plt.figure\<close>, with that artist's label; equal labels are not merged.
\<close>

definition artist_label :: "plot_cmd \<Rightarrow> string option" where
  "artist_label c =
     (case c of Plot xs ys color label \<Rightarrow> Some label
              | Scatter xs ys color label \<Rightarrow> Some label
              | Axhline y label \<Rightarrow> Some label
              | _ \<Rightarrow> None)"

definition current_figure :: "plot_cmd list \<Rightarrow> plot_cmd list" where
  "current_figure cmds = rev (takeWhile (\<lambda>c. c \<noteq> Figure) (rev cmds))"

definition legend_entries :: "plot_cmd list \<Rightarrow> string list" where
  "legend_entries cmds = List.map_filter artist_label (current_figure cmds)"

text \<open>
  The commands the loop of \<^verbatim>\<open>make_plot\<close> issues for the series when it runs to its
  end: for each series its line and then the scatter of its not-a-number positions.
\<close>

fun series_cmds :: "timestamp list \<Rightarrow> nat \<Rightarrow> (string \<times> fval list) list \<Rightarrow> plot_cmd list" where
  "series_cmds tms color_ind [] = []"
| "series_cmds tms color_ind ((key, data) # rest) =
     Plot tms data (colors ! color_ind) key
       # Scatter (select tms (map isnan data))
           (replicate (length (filter id (map isnan data))) 0) ''red'' ''No Data''
       # series_cmds tms ((color_ind + 1) mod length colors) rest"

section \<open>Orchestrator\<close>

text \<open>
  A start or final time is passed as a string or as a timestamp.  A string is parsed by
  \<^verbatim>\<open>datetime.strptime(t, '%Y%m%d%H')\<close>, a parameter \<open>strptime\<close> of the model, which
  returns the timestamp or raises.
\<close>

datatype time_arg = TStr string | TDt timestamp

definition to_datetime :: "(string \<Rightarrow> py_error + timestamp) \<Rightarrow> time_arg \<Rightarrow> py_error + timestamp" where
  "to_datetime strptime t = (case t of TStr s \<Rightarrow> strptime s | TDt d \<Rightarrow> Inr d)"

text \<open>\<^verbatim>\<open>pd.date_range(start, end, freq='H')\<close>: every hour from start to end inclusive.\<close>

definition date_range :: "timestamp \<Rightarrow> timestamp \<Rightarrow> timestamp list" where
  "date_range s f = [s..f]"

definition not_allowed :: "string \<Rightarrow> string" where
  "not_allowed anl_ges =
     CHR 0x27 # anl_ges @ CHR 0x27 # '' is not an allowed option, must be ''
       @ CHR 0x27 # ''anl'' @ CHR 0x27 # '', '' @ CHR 0x27 # ''ges'' @ CHR 0x27 # '', or ''
       @ CHR 0x27 # ''both'' @ CHR 0x27 # '' ''"

text \<open>
  Lines 44 to 55 of \<^verbatim>\<open>plot_time_series\<close>: the dictionary \<^verbatim>\<open>series\<close>, filled with the
  guess series and then with the analysis series.  The dictionary keeps insertion order.
\<close>

definition add_series ::
  "filesystem \<Rightarrow> string \<Rightarrow> string \<Rightarrow> string \<Rightarrow> timestamp list \<Rightarrow> string list option
     \<Rightarrow> int list option \<Rightarrow> (string \<times> fval list) list \<Rightarrow> io
     \<Rightarrow> (py_error + (string \<times> fval list) list) \<times> io" where
  "add_series fs path var label date_times station_ids obs_types series st =
     (let fps = get_gsi_fps path var label date_times
      in case get_omfs fs fps station_ids obs_types st of
           (Inl e, st1) \<Rightarrow> (Inl e, st1)
         | (Inr omfs, st1) \<Rightarrow> (Inr (AList.update label omfs series), st1))"

definition build_series ::
  "filesystem \<Rightarrow> string \<Rightarrow> string \<Rightarrow> string \<Rightarrow> timestamp list \<Rightarrow> string list option
     \<Rightarrow> int list option \<Rightarrow> io \<Rightarrow> (py_error + (string \<times> fval list) list) \<times> io" where
  "build_series fs path var anl_ges date_times station_ids obs_types st =
     (case (if anl_ges = ''both'' \<or> anl_ges = ''ges''
            then add_series fs path var ''ges'' date_times station_ids obs_types [] st
            else (Inr [], st)) of
        (Inl e, st1) \<Rightarrow> (Inl e, st1)
      | (Inr series, st1) \<Rightarrow>
          (if anl_ges = ''both'' \<or> anl_ges = ''anl''
           then add_series fs path var ''anl'' date_times station_ids obs_types series st1
           else (Inr series, st1)))"

definition plot_time_series ::
  "filesystem \<Rightarrow> (string \<Rightarrow> py_error + timestamp) \<Rightarrow> string \<Rightarrow> string \<Rightarrow> string
     \<Rightarrow> time_arg \<Rightarrow> time_arg \<Rightarrow> string list option \<Rightarrow> int list option \<Rightarrow> io
     \<Rightarrow> (py_error + unit) \<times> io" where
  "plot_time_series fs strptime path var anl_ges s_time f_time station_ids obs_types st =
     (if anl_ges \<notin> {''anl'', ''ges'', ''both''}
      then (Inl (ValueError (not_allowed anl_ges)), st)
      else case to_datetime strptime s_time of
             Inl e \<Rightarrow> (Inl e, st)
           | Inr s \<Rightarrow>
               (case to_datetime strptime f_time of
                  Inl e \<Rightarrow> (Inl e, st)
                | Inr f \<Rightarrow>
                    (let date_times = date_range s f
                     in case build_series fs path var anl_ges date_times station_ids obs_types st of
                          (Inl e, st1) \<Rightarrow> (Inl e, st1)
                        | (Inr series, st1) \<Rightarrow> make_plot series date_times var st1)))"

section \<open>Example inputs\<close>

text \<open>
  Small filesystems used to run the definitions: one readable file with three
  observation rows, one file whose reading fails, every other path not found; and a
  file one of whose rows holds not-a-number as its adjusted omf.
\<close>

definition example_rows :: "row list" where
  "example_rows =
     [\<lparr>station_id = ''A'', observation_type = 187, omf_adjusted = Val 1\<rparr>,
      \<lparr>station_id = ''B'', observation_type = 187, omf_adjusted = Val 3\<rparr>,
      \<lparr>station_id = ''A'', observation_type = 181, omf_adjusted = Val 5\<rparr>]"



definition example_disk :: filesystem where
  "example_disk fp =
     (if fp = ''/d/RTMA_CONUS.20240101/00/diag_conv_t_ges.2024010100.nc4.gz''
      then Data example_rows else FileNotFound)"

definition example_fs :: filesystem where
  "example_fs fp =
     (if fp = ''present'' then Data example_rows
      else if fp = ''broken'' then Failed ''boom''
      else FileNotFound)"

section \<open>Facts about formatting\<close>

lemma div_lo: "0 < k \<Longrightarrow> k * (a div k) \<le> (a::int)"
  using pos_mod_sign [of k a] mult_div_mod_eq [of k a] by linarith

lemma div_hi: "0 < k \<Longrightarrow> (a::int) < k * (a div k) + k"
  using pos_mod_bound [of k a] mult_div_mod_eq [of k a] by linarith

lemma civil_bounds:
  assumes lo: "- 106752 \<le> z0" and hi: "z0 \<le> 106751"
    and c: "civil_from_days z0 = (y, m, d)"
  shows "1000 \<le> y \<and> y < 10000 \<and> m < 100 \<and> d < 100"
proof -
  define z where "z = z0 + 719468"
  define era where "era = z div 146097"
  define doe where "doe = z - era * 146097"
  define a where "a = doe div 1460"
  define b where "b = doe div 36524"
  define e where "e = doe div 146096"
  define yoe where "yoe = (doe - a + b - e) div 365"
  define q where "q = yoe div 4"
  define r where "r = yoe div 100"
  define doy where "doy = doe - (365 * yoe + q - r)"
  define mp where "mp = (5 * doy + 2) div 153"
  define s where "s = (153 * mp + 2) div 5"
  have eq: "civil_from_days z0 =
     (if (if mp < 10 then mp + 3 else mp - 9) \<le> 2 then yoe + era * 400 + 1 else yoe + era * 400,
      if mp < 10 then mp + 3 else mp - 9, doy - s + 1)"
    unfolding civil_from_days_def Let_def z_def era_def doe_def a_def b_def e_def
        yoe_def q_def r_def doy_def mp_def s_def by (rule refl)
  have e1: "146097 * era \<le> z" "z < 146097 * era + 146097"
    unfolding era_def using div_lo [of 146097 z] div_hi [of 146097 z] by simp_all
  have e2: "1460 * a \<le> doe" "doe < 1460 * a + 1460"
    unfolding a_def using div_lo [of 1460 doe] div_hi [of 1460 doe] by simp_all
  have e3: "36524 * b \<le> doe" "doe < 36524 * b + 36524"
    unfolding b_def using div_lo [of 36524 doe] div_hi [of 36524 doe] by simp_all
  have e4: "146096 * e \<le> doe" "doe < 146096 * e + 146096"
    unfolding e_def using div_lo [of 146096 doe] div_hi [of 146096 doe] by simp_all
  have e5: "365 * yoe \<le> doe - a + b - e" "doe - a + b - e < 365 * yoe + 365"
    unfolding yoe_def using div_lo [of 365 "doe - a + b - e"] div_hi [of 365 "doe - a + b - e"]
    by simp_all
  have e6: "4 * q \<le> yoe" "yoe < 4 * q + 4"
    unfolding q_def using div_lo [of 4 yoe] div_hi [of 4 yoe] by simp_all
  have e7: "100 * r \<le> yoe" "yoe < 100 * r + 100"
    unfolding r_def using div_lo [of 100 yoe] div_hi [of 100 yoe] by simp_all
  have e8: "153 * mp \<le> 5 * doy + 2" "5 * doy + 2 < 153 * mp + 153"
    unfolding mp_def using div_lo [of 153 "5 * doy + 2"] div_hi [of 153 "5 * doy + 2"]
    by simp_all
  have e9: "5 * s \<le> 153 * mp + 2" "153 * mp + 2 < 5 * s + 5"
    unfolding s_def using div_lo [of 5 "153 * mp + 2"] div_hi [of 5 "153 * mp + 2"]
    by simp_all
  have zr: "612716 \<le> z" "z \<le> 826219" using lo hi by (simp_all add: z_def)
  have era: "4 \<le> era" "era \<le> 5" using e1 zr by linarith+
  have doe: "0 \<le> doe" "doe \<le> 146096" using e1 by (simp_all add: doe_def)
  have yoe: "0 \<le> yoe" "yoe \<le> 400" using e2 e3 e4 e5 doe by linarith+
  have doy: "doy \<le> 500" using e2 e3 e4 e5 e6 e7 doe yoe unfolding doy_def by linarith
  have mp: "mp \<le> 20" using e8 doy by linarith
  have d: "doy - s + 1 \<le> 40" using e8 e9 by linarith
  define M where "M = (if mp < 10 then mp + 3 else mp - 9)"
  define Y where "Y = (if M \<le> 2 then yoe + era * 400 + 1 else yoe + era * 400)"
  have eq': "civil_from_days z0 = (Y, M, doy - s + 1)"
    unfolding eq Y_def M_def by (rule refl)
  have "(y, m, d) = (Y, M, doy - s + 1)"
    by (rule trans [OF c [symmetric] eq'])
  then have ymd: "y = Y" "m = M" "d = doy - s + 1" by simp_all
  have "1000 \<le> Y" "Y < 10000" using era yoe by (simp_all add: Y_def)
  moreover have "M < 100" using mp by (simp add: M_def)
  ultimately show ?thesis using d ymd by simp
qed

lemma len_digits1: "n < 10 \<Longrightarrow> length (digits n) = 1"
  by (subst digits.simps) simp

lemma len_digits2: "10 \<le> n \<Longrightarrow> n < 100 \<Longrightarrow> length (digits n) = 2"
  by (subst digits.simps) (simp add: len_digits1)

lemma len_digits3: "100 \<le> n \<Longrightarrow> n < 1000 \<Longrightarrow> length (digits n) = 3"
  by (subst digits.simps) (simp add: len_digits2)

lemma len_digits4: "1000 \<le> n \<Longrightarrow> n < 10000 \<Longrightarrow> length (digits n) = 4"
  by (subst digits.simps) (simp add: len_digits3)

lemma len_pad2: "n < 100 \<Longrightarrow> length (zero_pad 2 n) = 2"
  by (cases "n < 10") (simp_all add: zero_pad_def len_digits1 len_digits2)

lemma len_pad4: "1000 \<le> n \<Longrightarrow> n < 10000 \<Longrightarrow> length (zero_pad 4 n) = 4"
  by (simp add: zero_pad_def len_digits4)

lemma len_hour2: "length (hour2 t) = 2"
proof -
  have "t mod 24 < 24" by simp
  then have "hour_of t < 100" unfolding hour_of_def by linarith
  then show ?thesis by (simp add: hour2_def len_pad2)
qed

lemma len_date8:
  assumes "valid_timestamp t"
  shows "length (date8 t) = 8"
proof -
  obtain y m d where c: "civil_from_days (t div 24) = (y, m, d)"
    by (cases "civil_from_days (t div 24)") auto
  have "- 106752 \<le> t div 24" "t div 24 \<le> 106751"
    using assms unfolding valid_timestamp_def by linarith+
  from civil_bounds [OF this c]
  have "1000 \<le> y" "y < 10000" "m < 100" "d < 100" by simp_all
  then have "1000 \<le> year_of t" "year_of t < 10000" "month_of t < 100" "day_of t < 100"
    by (simp_all add: year_of_def month_of_def day_of_def c)
  then show ?thesis by (simp add: date8_def len_pad4 len_pad2)
qed

lemma strftime_split: "strftime t = date8 t @ hour2 t"
  by (simp add: strftime_def date8_def hour2_def)

lemma day_str_strftime: "valid_timestamp t \<Longrightarrow> day_str (strftime t) = date8 t"
  by (simp add: day_str_def strftime_split len_date8)

lemma hour_str_strftime: "valid_timestamp t \<Longrightarrow> hour_str (strftime t) = hour2 t"
  by (simp add: hour_str_def strftime_split len_date8 len_hour2)

section \<open>The extraction loop\<close>

lemma enumerate_Cons: "enumerate n (x # xs) = (n, x) # enumerate (Suc n) xs"
  by simp

lemma get_omfs_loop_ok:
  assumes "no_unexpected fs fps" and "n + length fps \<le> length arr"
  shows "fst (get_omfs_loop fs sids ots (enumerate n fps) arr st)
           = Inr (take n arr @ map (hourly_value fs sids ots) fps @ drop (n + length fps) arr)
       \<and> reads (snd (get_omfs_loop fs sids ots (enumerate n fps) arr st)) = reads st @ fps
       \<and> stdout (snd (get_omfs_loop fs sids ots (enumerate n fps) arr st))
           = stdout st @ concat (map (hourly_notice fs sids ots) fps)
       \<and> plt (snd (get_omfs_loop fs sids ots (enumerate n fps) arr st)) = plt st"
  using assms
proof (induction fps arbitrary: n arr st)
  case Nil
  then show ?case by simp
next
  case (Cons fp fps)
  from Cons.prems have nu: "no_unexpected fs fps" and nf: "\<forall>e. fs fp \<noteq> Failed e"
    by (auto simp: no_unexpected_def split: read_outcome.splits)
  from Cons.prems have len: "Suc n + length fps \<le> length arr" and n: "n < length arr"
    by simp_all
  have upd: "\<And>v. take (Suc n) (arr[n := v]) = take n arr @ [v]"
    using n by (simp add: take_Suc_conv_app_nth)
  have drp: "\<And>v. drop (Suc n + length fps) (arr[n := v]) = drop (Suc (n + length fps)) arr"
    by simp
  show ?case
  proof (cases "fs fp")
    case FileNotFound
    have step: "get_omfs_loop fs sids ots (enumerate n (fp # fps)) arr st
        = get_omfs_loop fs sids ots (enumerate (Suc n) fps) (arr[n := NaN]) (open_file fp st)"
      using FileNotFound by simp
    show ?thesis
      unfolding step
      using Cons.IH [OF nu, of "Suc n" "arr[n := NaN]" "open_file fp st"] len FileNotFound
      by (simp add: upd hourly_value_def hourly_notice_def open_file_def)
  next
    case (Failed e)
    with nf show ?thesis by simp
  next
    case (Data df)
    define v where "v = series_mean (map omf_adjusted (filter_df [df] sids ots))"
    define st1 where "st1 = (if filter_df [df] sids ots = []
                      then print ''Filter combination yields no results'' (open_file fp st)
                      else open_file fp st)"
    have step: "get_omfs_loop fs sids ots (enumerate n (fp # fps)) arr st
        = get_omfs_loop fs sids ots (enumerate (Suc n) fps) (arr[n := v]) st1"
      using Data by (simp add: v_def st1_def Let_def)
    show ?thesis
      unfolding step
      using Cons.IH [OF nu, of "Suc n" "arr[n := v]" st1] len Data
      by (simp add: upd hourly_value_def hourly_notice_def open_file_def print_def v_def st1_def)
  qed
qed

lemma get_omfs_ok:
  assumes "no_unexpected fs fps"
  shows "fst (get_omfs fs fps sids ots st) = Inr (map (hourly_value fs sids ots) fps)"
    and "reads (snd (get_omfs fs fps sids ots st)) = reads st @ fps"
    and "stdout (snd (get_omfs fs fps sids ots st))
           = stdout st @ concat (map (hourly_notice fs sids ots) fps)"
    and "plt (snd (get_omfs fs fps sids ots st)) = plt st"
  using get_omfs_loop_ok [OF assms, of 0 "replicate (length fps) (Val 0)" sids ots st]
  by (simp_all add: get_omfs_def)

lemma get_omfs_loop_fail:
  assumes "k < length fps" and "fs (fps ! k) = Failed e" and "no_unexpected fs (take k fps)"
  shows "fst (get_omfs_loop fs sids ots (enumerate n fps) arr st) = Inl (Raised e)
       \<and> reads (snd (get_omfs_loop fs sids ots (enumerate n fps) arr st))
           = reads st @ take (Suc k) fps
       \<and> stdout (snd (get_omfs_loop fs sids ots (enumerate n fps) arr st))
           = stdout st @ concat (map (hourly_notice fs sids ots) (take k fps))
               @ [''Unknown error occurred: '' @ e]
       \<and> plt (snd (get_omfs_loop fs sids ots (enumerate n fps) arr st)) = plt st"
  using assms
proof (induction fps arbitrary: k n arr st)
  case Nil
  then show ?case by simp
next
  case (Cons fp fps)
  show ?case
  proof (cases k)
    case 0
    with Cons.prems have "fs fp = Failed e" by simp
    then show ?thesis using 0 by (simp add: open_file_def print_def)
  next
    case (Suc j)
    with Cons.prems have j: "j < length fps" and fj: "fs (fps ! j) = Failed e"
      and nu: "no_unexpected fs (take j fps)" and nf: "\<forall>e. fs fp \<noteq> Failed e"
      by (auto simp: no_unexpected_def split: read_outcome.splits)
    show ?thesis
    proof (cases "fs fp")
      case FileNotFound
      have step: "get_omfs_loop fs sids ots (enumerate n (fp # fps)) arr st
          = get_omfs_loop fs sids ots (enumerate (Suc n) fps) (arr[n := NaN]) (open_file fp st)"
        using FileNotFound by simp
      show ?thesis
        unfolding step
        using Cons.IH [OF j fj nu, of "Suc n" "arr[n := NaN]" "open_file fp st"] FileNotFound Suc
        by (simp add: hourly_notice_def open_file_def)
    next
      case (Failed e')
      with nf show ?thesis by simp
    next
      case (Data df)
      define v where "v = series_mean (map omf_adjusted (filter_df [df] sids ots))"
      define st1 where "st1 = (if filter_df [df] sids ots = []
                        then print ''Filter combination yields no results'' (open_file fp st)
                        else open_file fp st)"
      have step: "get_omfs_loop fs sids ots (enumerate n (fp # fps)) arr st
          = get_omfs_loop fs sids ots (enumerate (Suc n) fps) (arr[n := v]) st1"
        using Data by (simp add: v_def st1_def Let_def)
      show ?thesis
        unfolding step
        using Cons.IH [OF j fj nu, of "Suc n" "arr[n := v]" st1] Data Suc
        by (simp add: hourly_notice_def open_file_def print_def st1_def)
    qed
  qed
qed

lemma get_omfs_pair:
  "get_omfs fs fps sids ots st
     = (fst (get_omfs fs fps sids ots st), snd (get_omfs fs fps sids ots st))"
  by simp

lemma no_unexpected_nth:
  "no_unexpected fs fps \<Longrightarrow> i < length fps \<Longrightarrow> fs (fps ! i) \<noteq> Failed e"
  by (auto simp: no_unexpected_def list_all_length split: read_outcome.splits)


lemma series_mean_Nil: "series_mean [] = NaN"
  by (simp add: series_mean_def numbers_def)

section \<open>The series extractor\<close>

text \<open>
  Claim C2.  When the reader reports file-not-found for the path at a position, the loop
  stores the not-a-number marker at that position and goes on with the remaining
  positions; and when no path of the list makes the reader raise another exception, the
  extraction returns a series as long as the list, holding not-a-number at that position,
  having asked the reader for every path of the list.
\<close>

theorem get_omfs_file_not_found:
  assumes "i < length fps" and "fs (fps ! i) = FileNotFound"
  shows "(\<forall>rest arr st0.
            get_omfs_loop fs sids ots ((i, fps ! i) # rest) arr st0
              = get_omfs_loop fs sids ots rest (arr[i := NaN]) (open_file (fps ! i) st0))
       \<and> (no_unexpected fs fps \<longrightarrow>
            (\<exists>series st'. get_omfs fs fps sids ots st = (Inr series, st')
               \<and> length series = length fps \<and> series ! i = NaN
               \<and> reads st' = reads st @ fps))"
proof -
  have step: "\<forall>rest arr st0.
            get_omfs_loop fs sids ots ((i, fps ! i) # rest) arr st0
              = get_omfs_loop fs sids ots rest (arr[i := NaN]) (open_file (fps ! i) st0)"
    using assms(2) by simp
  have run: "\<exists>series st'. get_omfs fs fps sids ots st = (Inr series, st')
               \<and> length series = length fps \<and> series ! i = NaN
               \<and> reads st' = reads st @ fps" if nu: "no_unexpected fs fps"
  proof -
    let ?r = "get_omfs fs fps sids ots st"
    have "?r = (Inr (map (hourly_value fs sids ots) fps), snd ?r)"
      using get_omfs_ok(1) [OF nu, of sids ots st] get_omfs_pair [of fs fps sids ots st]
      by simp
    moreover have "map (hourly_value fs sids ots) fps ! i = NaN"
      using assms by (simp add: hourly_value_def)
    moreover have "reads (snd ?r) = reads st @ fps"
      by (rule get_omfs_ok(2) [OF nu])
    ultimately show ?thesis by (metis length_map)
  qed
  from step run show ?thesis by blast
qed

theorem get_omfs_file_not_found_witness:
  "1 < length [''present'', ''absent'', ''present'']
   \<and> example_fs ([''present'', ''absent'', ''present''] ! 1) = FileNotFound
   \<and> no_unexpected example_fs [''present'', ''absent'', ''present'']
   \<and> get_omfs example_fs [''present'', ''absent'', ''present''] None None io0
       = (Inr [Val 3, NaN, Val 3],
          \<lparr>reads = [''present'', ''absent'', ''present''], stdout = [], plt = []\<rparr>)"
proof -
  have h1: "1 < length [''present'', ''absent'', ''present'']" by simp
  have h2: "example_fs ([''present'', ''absent'', ''present''] ! 1) = FileNotFound"
    by (simp add: example_fs_def)
  have h3: "no_unexpected example_fs [''present'', ''absent'', ''present'']"
    by (simp add: no_unexpected_def example_fs_def)
  have ev: "get_omfs example_fs [''present'', ''absent'', ''present''] None None io0
       = (Inr [Val 3, NaN, Val 3],
          \<lparr>reads = [''present'', ''absent'', ''present''], stdout = [], plt = []\<rparr>)"
    by (simp add: get_omfs_def example_fs_def example_rows_def filter_df_def keep_row_def
        series_mean_def numbers_def open_file_def print_def io0_def)
  show ?thesis
    using h1 h2 h3 ev
      get_omfs_file_not_found [where i = 1 and fps = "[''present'', ''absent'', ''present'']"
        and fs = example_fs and sids = None and ots = None and st = io0, OF h1 h2]
    by simp
qed

text \<open>
  Claim C3.  When a file is read and the filters exclude every one of its rows, the mean
  of the empty column is the not-a-number marker, not zero and not an error: the
  extraction prints its notice, stores not-a-number at that position and, when no path
  of the list makes the reader raise another exception, returns the series.
\<close>

theorem get_omfs_empty_filter:
  assumes "i < length fps" and "fs (fps ! i) = Data df" and "filter_df [df] sids ots = []"
    and "no_unexpected fs fps"
  shows "\<exists>series st'. get_omfs fs fps sids ots st = (Inr series, st')
           \<and> length series = length fps \<and> series ! i = NaN \<and> series ! i \<noteq> Val 0
           \<and> ''Filter combination yields no results'' \<in> set (stdout st')"
proof -
  let ?r = "get_omfs fs fps sids ots st"
  have r: "?r = (Inr (map (hourly_value fs sids ots) fps), snd ?r)"
    using get_omfs_ok(1) [OF assms(4), of sids ots st] get_omfs_pair [of fs fps sids ots st]
    by simp
  have v: "map (hourly_value fs sids ots) fps ! i = NaN"
    using assms(1-3) by (simp add: hourly_value_def series_mean_Nil)
  have "hourly_notice fs sids ots (fps ! i) = [''Filter combination yields no results'']"
    using assms(2,3) by (simp add: hourly_notice_def)
  then have "''Filter combination yields no results''
               \<in> set (concat (map (hourly_notice fs sids ots) fps))"
    using assms(1) by (auto intro!: bexI [of _ "fps ! i"])
  then have n: "''Filter combination yields no results'' \<in> set (stdout (snd ?r))"
    by (simp add: get_omfs_ok(3) [OF assms(4)])
  from r v n show ?thesis by (metis fval.distinct(1) length_map)
qed

theorem get_omfs_empty_filter_witness:
  "0 < length [''present'', ''absent'']
   \<and> example_fs ([''present'', ''absent''] ! 0) = Data example_rows
   \<and> filter_df [example_rows] (Some [''C'']) (Some [187]) = []
   \<and> no_unexpected example_fs [''present'', ''absent'']
   \<and> get_omfs example_fs [''present'', ''absent''] (Some [''C'']) (Some [187]) io0
       = (Inr [NaN, NaN],
          \<lparr>reads = [''present'', ''absent''],
             stdout = [''Filter combination yields no results''], plt = []\<rparr>)"
proof -
  have h1: "0 < length [''present'', ''absent'']" by simp
  have h2: "example_fs ([''present'', ''absent''] ! 0) = Data example_rows"
    by (simp add: example_fs_def)
  have h3: "filter_df [example_rows] (Some [''C'']) (Some [187]) = []"
    by (simp add: filter_df_def keep_row_def example_rows_def)
  have h4: "no_unexpected example_fs [''present'', ''absent'']"
    by (simp add: no_unexpected_def example_fs_def)
  have ev: "get_omfs example_fs [''present'', ''absent''] (Some [''C'']) (Some [187]) io0
       = (Inr [NaN, NaN],
          \<lparr>reads = [''present'', ''absent''],
             stdout = [''Filter combination yields no results''], plt = []\<rparr>)"
    by (simp add: get_omfs_def example_fs_def example_rows_def filter_df_def keep_row_def
        series_mean_def numbers_def open_file_def print_def io0_def)
  show ?thesis
    using h1 h2 h3 h4 ev
      get_omfs_empty_filter [where i = 0 and fps = "[''present'', ''absent'']"
        and fs = example_fs and sids = "Some [''C'']" and ots = "Some [187]" and st = io0,
        OF h1 h2 h3 h4]
    by simp
qed




text \<open>
  Claim C6.  When the reader raises an exception other than file-not-found for the path
  at a position (the earlier positions having been read or not found), the extraction
  prints the error and raises it again: it returns no series, and the reader was asked
  for the paths up to that position and for none after it.
\<close>

theorem get_omfs_unexpected_error:
  assumes "k < length fps" and "fs (fps ! k) = Failed e" and "no_unexpected fs (take k fps)"
  shows "\<exists>st'. get_omfs fs fps sids ots st = (Inl (Raised e), st')
           \<and> reads st' = reads st @ take (Suc k) fps
           \<and> length (reads st') = length (reads st) + Suc k
           \<and> last (stdout st') = ''Unknown error occurred: '' @ e
           \<and> plt st' = plt st"
proof -
  let ?r = "get_omfs fs fps sids ots st"
  note f = get_omfs_loop_fail [OF assms, of sids ots 0 "replicate (length fps) (Val 0)" st]
  have r: "?r = (Inl (Raised e), snd ?r)"
    using f get_omfs_pair [of fs fps sids ots st] by (simp add: get_omfs_def)
  have rd: "reads (snd ?r) = reads st @ take (Suc k) fps"
    using f by (simp add: get_omfs_def)
  have ln: "length (reads (snd ?r)) = length (reads st) + Suc k"
    using assms(1) by (simp add: rd min_def)
  have out: "last (stdout (snd ?r)) = ''Unknown error occurred: '' @ e"
    using f by (simp add: get_omfs_def)
  have pl: "plt (snd ?r) = plt st"
    using f by (simp add: get_omfs_def)
  from r rd ln out pl show ?thesis by metis
qed

theorem get_omfs_unexpected_error_witness:
  "1 < length [''present'', ''broken'', ''present'']
   \<and> example_fs ([''present'', ''broken'', ''present''] ! 1) = Failed ''boom''
   \<and> no_unexpected example_fs (take 1 [''present'', ''broken'', ''present''])
   \<and> get_omfs example_fs [''present'', ''broken'', ''present''] None None io0
       = (Inl (Raised ''boom''),
          \<lparr>reads = [''present'', ''broken''],
             stdout = [''Unknown error occurred: boom''], plt = []\<rparr>)"
proof -
  have h1: "1 < length [''present'', ''broken'', ''present'']" by simp
  have h2: "example_fs ([''present'', ''broken'', ''present''] ! 1) = Failed ''boom''"
    by (simp add: example_fs_def)
  have h3: "no_unexpected example_fs (take 1 [''present'', ''broken'', ''present''])"
    by (simp add: no_unexpected_def example_fs_def)
  have ev: "get_omfs example_fs [''present'', ''broken'', ''present''] None None io0
       = (Inl (Raised ''boom''),
          \<lparr>reads = [''present'', ''broken''],
             stdout = [''Unknown error occurred: boom''], plt = []\<rparr>)"
    by (simp add: get_omfs_def example_fs_def example_rows_def filter_df_def keep_row_def
        series_mean_def numbers_def open_file_def print_def io0_def)
  show ?thesis
    using h1 h2 h3 ev
      get_omfs_unexpected_error [where k = 1 and fps = "[''present'', ''broken'', ''present'']"
        and fs = example_fs and sids = None and ots = None and st = io0 and e = "''boom''",
        OF h1 h2 h3]
    by simp
qed

section \<open>The path builder\<close>

text \<open>
  Claim C5.  The path builder is a function of its four arguments alone (it takes no
  filesystem and no state, so equal arguments give equal paths): for a sequence of valid
  timestamps it returns one path per timestamp, in the order of the timestamps, and each
  path is the template \<^verbatim>\<open>{root}/RTMA_CONUS.{YYYYMMDD}/{HH}/diag_conv_{var}_{anl_ges}.{YYYYMMDD}{HH}.nc4.gz\<close>
  filled with the 8-digit date and the 2-digit hour of that timestamp.
\<close>

theorem get_gsi_fps_template:
  assumes "\<forall>t \<in> set date_times. valid_timestamp t"
  shows "get_gsi_fps path var anl_ges date_times =
           map (\<lambda>t. path @ ''/RTMA_CONUS.'' @ date8 t @ ''/'' @ hour2 t @ ''/diag_conv_'' @ var
                       @ ''_'' @ anl_ges @ ''.'' @ date8 t @ hour2 t @ ''.nc4.gz'') date_times
       \<and> length (get_gsi_fps path var anl_ges date_times) = length date_times
       \<and> (\<forall>t \<in> set date_times. length (date8 t) = 8 \<and> length (hour2 t) = 2)"
proof -
  have "get_gsi_fps path var anl_ges date_times =
          map (\<lambda>t. gsi_fp path var anl_ges (day_str (strftime t)) (hour_str (strftime t))) date_times"
    by (simp add: get_gsi_fps_def Let_def zip_map_map zip_same_conv_map comp_def)
  also have "\<dots> = map (\<lambda>t. gsi_fp path var anl_ges (date8 t) (hour2 t)) date_times"
    using assms by (simp add: day_str_strftime hour_str_strftime)
  finally have eq: "get_gsi_fps path var anl_ges date_times =
          map (\<lambda>t. gsi_fp path var anl_ges (date8 t) (hour2 t)) date_times" .
  have "length (get_gsi_fps path var anl_ges date_times) = length date_times"
    unfolding eq by simp
  moreover have "\<forall>t \<in> set date_times. length (date8 t) = 8 \<and> length (hour2 t) = 2"
    using assms by (simp add: len_date8 len_hour2)
  ultimately show ?thesis using eq by (simp add: gsi_fp_def)
qed

theorem get_gsi_fps_template_witness:
  "valid_timestamp 473352 \<and> valid_timestamp 473375
   \<and> get_gsi_fps ''/d'' ''t'' ''ges'' [473352, 473375] =
       [''/d/RTMA_CONUS.20240101/00/diag_conv_t_ges.2024010100.nc4.gz'',
        ''/d/RTMA_CONUS.20240101/23/diag_conv_t_ges.2024010123.nc4.gz'']"
proof -
  have h: "\<forall>t \<in> set [473352, 473375]. valid_timestamp t"
    by (simp add: valid_timestamp_def)
  have d: "date8 473352 = ''20240101''" "hour2 473352 = ''00''"
    "date8 473375 = ''20240101''" "hour2 473375 = ''23''"
    by code_simp+
  show ?thesis
    using h get_gsi_fps_template [OF h, of "''/d''" "''t''" "''ges''"]
    by (simp add: d)
qed

section \<open>Validation and lookup failures\<close>

text \<open>
  Claim C7.  A call of the entry point with a mode string other than \<^verbatim>\<open>anl\<close>,
  \<^verbatim>\<open>ges\<close> and \<^verbatim>\<open>both\<close> raises the \<^verbatim>\<open>ValueError\<close> of the mode check at once: whatever
  the filesystem, the parser and the time arguments are, the result is that error and
  the state is unchanged, so no file was opened, nothing was parsed, printed or drawn.
\<close>

theorem plot_time_series_invalid_mode:
  assumes "anl_ges \<notin> {''anl'', ''ges'', ''both''}"
  shows "plot_time_series fs strptime path var anl_ges s_time f_time station_ids obs_types st
           = (Inl (ValueError (not_allowed anl_ges)), st)"
  using assms by (simp add: plot_time_series_def)

theorem plot_time_series_invalid_mode_witness:
  "''xyz'' \<notin> {''anl'', ''ges'', ''both''}
   \<and> plot_time_series (\<lambda>p. Failed ''unreadable'') (\<lambda>s. Inl (ValueError ''bad time''))
        ''/d'' ''t'' ''xyz'' (TStr ''garbage'') (TStr ''garbage'') None None io0
       = (Inl (ValueError (not_allowed ''xyz'')), io0)
   \<and> reads io0 = []"
proof -
  have h: "''xyz'' \<notin> {''anl'', ''ges'', ''both''}" by simp
  show ?thesis
    using h plot_time_series_invalid_mode [OF h]
    by (simp add: io0_def)
qed

text \<open>
  Claim C8.  For a variable that is not a key of the display lookup (\<^verbatim>\<open>t\<close>, \<^verbatim>\<open>ps\<close>,
  \<^verbatim>\<open>q\<close>) the plot stage fails: the lookup yields \<^verbatim>\<open>None\<close>, subscripting it raises,
  and nothing is drawn, so no blank display name or unit label is produced.
\<close>

theorem make_plot_unknown_variable:
  assumes "var \<notin> {''t'', ''ps'', ''q''}"
  shows "make_plot series tms var st
           = (Inl (TypeError (CHR 0x27 # ''NoneType'' @ CHR 0x27 # '' object is not subscriptable'')), st)"
  using assms by (simp add: make_plot_def units_mapping_def)

theorem make_plot_unknown_variable_witness:
  "''u'' \<notin> {''t'', ''ps'', ''q''}
   \<and> make_plot [(''ges'', [Val 1])] [473352] ''u'' io0
       = (Inl (TypeError (CHR 0x27 # ''NoneType'' @ CHR 0x27 # '' object is not subscriptable'')), io0)
   \<and> plt io0 = []"
proof -
  have h: "''u'' \<notin> {''t'', ''ps'', ''q''}" by simp
  show ?thesis
    using h make_plot_unknown_variable [OF h]
    by (simp add: io0_def)
qed

section \<open>The orchestrator\<close>

lemma length_get_gsi_fps: "length (get_gsi_fps path var label date_times) = length date_times"
  by (simp add: get_gsi_fps_def Let_def)

lemma length_date_range: "length (date_range s f) = card {s..f}"
  by (simp add: date_range_def)

lemma add_series_ok:
  assumes "no_unexpected fs (get_gsi_fps path var label date_times)"
  shows "add_series fs path var label date_times sids ots series st
           = (Inr (AList.update label
                    (map (hourly_value fs sids ots) (get_gsi_fps path var label date_times)) series),
              snd (get_omfs fs (get_gsi_fps path var label date_times) sids ots st))"
proof -
  obtain x st1
    where r: "get_omfs fs (get_gsi_fps path var label date_times) sids ots st = (x, st1)"
    by (cases "get_omfs fs (get_gsi_fps path var label date_times) sids ots st") auto
  have "x = Inr (map (hourly_value fs sids ots) (get_gsi_fps path var label date_times))"
    using get_omfs_ok(1) [OF assms, of sids ots st] by (simp add: r)
  then show ?thesis by (simp add: add_series_def Let_def r)
qed

text \<open>
  Claim C1.  For a valid mode and a range with start at most end, when no path that the
  mode makes the extractor open raises an exception other than file-not-found (the guess
  paths unless the mode is \<^verbatim>\<open>anl\<close>, the analysis paths unless the mode is \<^verbatim>\<open>ges\<close>),
  the series are built; each has as many values as there are hourly timestamps from start
  to end inclusive, that number being at least one; the labels are those the mode asks
  for; and in mode \<^verbatim>\<open>both\<close> the series are exactly the pair \<^verbatim>\<open>ges\<close> and \<^verbatim>\<open>anl\<close>, each
  the result of its own extraction over its own paths, whatever the state that extraction
  starts from.
\<close>

theorem build_series_lengths:
  assumes "anl_ges \<in> {''anl'', ''ges'', ''both''}" and "s \<le> f"
    and "anl_ges \<noteq> ''anl'' \<longrightarrow> no_unexpected fs (get_gsi_fps path var ''ges'' (date_range s f))"
    and "anl_ges \<noteq> ''ges'' \<longrightarrow> no_unexpected fs (get_gsi_fps path var ''anl'' (date_range s f))"
  shows "\<exists>series st'.
           build_series fs path var anl_ges (date_range s f) sids ots st = (Inr series, st')
         \<and> length (date_range s f) = card {s..f} \<and> 0 < card {s..f}
         \<and> (\<forall>(label, omfs) \<in> set series. length omfs = card {s..f})
         \<and> map fst series = (if anl_ges = ''anl'' then [''anl'']
                              else if anl_ges = ''ges'' then [''ges''] else [''ges'', ''anl''])
         \<and> (anl_ges = ''both'' \<longrightarrow>
              (\<exists>g a. series = [(''ges'', g), (''anl'', a)]
                 \<and> length g = card {s..f} \<and> length a = card {s..f}
                 \<and> (\<forall>st0. fst (get_omfs fs (get_gsi_fps path var ''ges'' (date_range s f))
                                  sids ots st0) = Inr g)
                 \<and> (\<forall>st0. fst (get_omfs fs (get_gsi_fps path var ''anl'' (date_range s f))
                                  sids ots st0) = Inr a)))"
proof -
  let ?dts = "date_range s f"
  let ?gp = "get_gsi_fps path var ''ges'' ?dts"
  let ?ap = "get_gsi_fps path var ''anl'' ?dts"
  define g where "g = map (hourly_value fs sids ots) ?gp"
  define a where "a = map (hourly_value fs sids ots) ?ap"
  have lg: "length g = card {s..f}" and la: "length a = card {s..f}"
    by (simp_all add: g_def a_def length_get_gsi_fps length_date_range)
  have pos: "0 < card {s..f}" using assms(2) by simp
  consider (anl) "anl_ges = ''anl''" | (ges) "anl_ges = ''ges''" | (both) "anl_ges = ''both''"
    using assms(1) by auto
  then show ?thesis
  proof cases
    case anl
    have na: "no_unexpected fs ?ap" using assms(4) anl by simp
    have "build_series fs path var anl_ges ?dts sids ots st
            = (Inr [(''anl'', a)], snd (get_omfs fs ?ap sids ots st))"
      by (simp add: build_series_def anl add_series_ok [OF na] a_def)
    then show ?thesis using anl la pos by (simp add: length_date_range)
  next
    case ges
    have ng: "no_unexpected fs ?gp" using assms(3) ges by simp
    have "build_series fs path var anl_ges ?dts sids ots st
            = (Inr [(''ges'', g)], snd (get_omfs fs ?gp sids ots st))"
      by (simp add: build_series_def ges add_series_ok [OF ng] g_def)
    then show ?thesis using ges lg pos by (simp add: length_date_range)
  next
    case both
    have ng: "no_unexpected fs ?gp" using assms(3) both by simp
    have na: "no_unexpected fs ?ap" using assms(4) both by simp
    have ig: "\<forall>st0. fst (get_omfs fs ?gp sids ots st0) = Inr g"
      by (simp add: g_def get_omfs_ok(1) [OF ng])
    have ia: "\<forall>st0. fst (get_omfs fs ?ap sids ots st0) = Inr a"
      by (simp add: a_def get_omfs_ok(1) [OF na])
    have "build_series fs path var anl_ges ?dts sids ots st
            = (Inr [(''ges'', g), (''anl'', a)],
               snd (get_omfs fs ?ap sids ots (snd (get_omfs fs ?gp sids ots st))))"
      by (simp add: build_series_def both add_series_ok [OF ng]
          add_series_ok [OF na] g_def a_def)
    then show ?thesis using both lg la pos ig ia by (simp add: length_date_range)
  qed
qed

theorem build_series_lengths_witness:
  "''both'' \<in> {''anl'', ''ges'', ''both''} \<and> (473352 :: int) \<le> 473354
   \<and> no_unexpected example_disk (get_gsi_fps ''/d'' ''t'' ''ges'' (date_range 473352 473354))
   \<and> no_unexpected example_disk (get_gsi_fps ''/d'' ''t'' ''anl'' (date_range 473352 473354))
   \<and> card {473352 :: int .. 473354} = 3
   \<and> fst (build_series example_disk ''/d'' ''t'' ''both'' (date_range 473352 473354)
            None None io0)
       = Inr [(''ges'', [Val 3, NaN, NaN]), (''anl'', [NaN, NaN, NaN])]"
proof -
  have pg: "get_gsi_fps ''/d'' ''t'' ''ges'' (date_range 473352 473354) =
      [''/d/RTMA_CONUS.20240101/00/diag_conv_t_ges.2024010100.nc4.gz'',
       ''/d/RTMA_CONUS.20240101/01/diag_conv_t_ges.2024010101.nc4.gz'',
       ''/d/RTMA_CONUS.20240101/02/diag_conv_t_ges.2024010102.nc4.gz'']"
    by code_simp
  have pa: "get_gsi_fps ''/d'' ''t'' ''anl'' (date_range 473352 473354) =
      [''/d/RTMA_CONUS.20240101/00/diag_conv_t_anl.2024010100.nc4.gz'',
       ''/d/RTMA_CONUS.20240101/01/diag_conv_t_anl.2024010101.nc4.gz'',
       ''/d/RTMA_CONUS.20240101/02/diag_conv_t_anl.2024010102.nc4.gz'']"
    by code_simp
  have h1: "''both'' \<in> {''anl'', ''ges'', ''both''}" by simp
  have h2: "(473352 :: int) \<le> 473354" by simp
  have h3: "no_unexpected example_disk (get_gsi_fps ''/d'' ''t'' ''ges'' (date_range 473352 473354))"
    unfolding pg by (simp add: no_unexpected_def example_disk_def)
  have h4: "no_unexpected example_disk (get_gsi_fps ''/d'' ''t'' ''anl'' (date_range 473352 473354))"
    unfolding pa by (simp add: no_unexpected_def example_disk_def)
  have ev: "fst (build_series example_disk ''/d'' ''t'' ''both'' (date_range 473352 473354)
            None None io0)
       = Inr [(''ges'', [Val 3, NaN, NaN]), (''anl'', [NaN, NaN, NaN])]"
    unfolding build_series_def add_series_def Let_def pg pa
    by (simp add: get_omfs_def example_disk_def example_rows_def filter_df_def keep_row_def
        series_mean_def numbers_def open_file_def print_def io0_def)
  have h3': "''both'' \<noteq> ''anl'' \<longrightarrow>
      no_unexpected example_disk (get_gsi_fps ''/d'' ''t'' ''ges'' (date_range 473352 473354))"
    using h3 by simp
  have h4': "''both'' \<noteq> ''ges'' \<longrightarrow>
      no_unexpected example_disk (get_gsi_fps ''/d'' ''t'' ''anl'' (date_range 473352 473354))"
    using h4 by simp
  show ?thesis
    using h1 h2 h3 h4 ev
      build_series_lengths [where anl_ges = "''both''" and s = 473352 and f = 473354
        and fs = example_disk and path = "''/d''" and var = "''t''" and sids = None
        and ots = None and st = io0, OF h1 h2 h3' h4']
    by simp
qed

text \<open>
  Claim C10.  With a valid mode, a known variable and a start later than the end, nothing
  is rejected by the validation or by the time conversion: the range of timestamps is
  empty, no file is opened, every requested series is empty, and the call fails in the
  plot stage, after the figure, the first line and the first scatter were drawn, with the
  \<^verbatim>\<open>ValueError\<close> of the maximum taken over an empty array, which is not the error of
  the mode check.
\<close>

theorem plot_time_series_reversed_range:
  assumes "anl_ges \<in> {''anl'', ''ges'', ''both''}" and "var \<in> {''t'', ''ps'', ''q''}"
    and "to_datetime strptime s_time = Inr s" and "to_datetime strptime f_time = Inr f"
    and "f < s"
  shows "date_range s f = []
       \<and> build_series fs path var anl_ges (date_range s f) sids ots st
           = (Inr (if anl_ges = ''anl'' then [(''anl'', [])]
                   else if anl_ges = ''ges'' then [(''ges'', [])]
                   else [(''ges'', []), (''anl'', [])]), st)
       \<and> plot_time_series fs strptime path var anl_ges s_time f_time sids ots st
           = (Inl (ValueError ''zero-size array to reduction operation fmax which has no identity''),
              draw (Scatter [] [] ''red'' ''No Data'')
                (draw (Plot [] [] ''b'' (if anl_ges = ''anl'' then ''anl'' else ''ges''))
                  (draw Figure st)))
       \<and> reads (snd (plot_time_series fs strptime path var anl_ges s_time f_time sids ots st))
           = reads st
       \<and> ValueError ''zero-size array to reduction operation fmax which has no identity''
           \<noteq> ValueError (not_allowed anl_ges)"
proof -
  have dr: "date_range s f = []"
    using assms(5) by (simp add: date_range_def)
  have fps: "\<And>label. get_gsi_fps path var label [] = []"
    by (simp add: get_gsi_fps_def)
  have omfs: "\<And>st0. get_omfs fs [] sids ots st0 = (Inr [], st0)"
    by (simp add: get_omfs_def)
  have add: "\<And>label series st0.
      add_series fs path var label [] sids ots series st0 = (Inr (AList.update label [] series), st0)"
    by (simp add: add_series_def fps omfs)
  have bs0: "\<And>mode. build_series fs path var mode [] sids ots st
           = (Inr ((if mode = ''both'' \<or> mode = ''ges'' then [(''ges'', [])] else [])
                   @ (if mode = ''both'' \<or> mode = ''anl'' then [(''anl'', [])] else [])), st)"
    by (simp add: build_series_def add)
  have bs: "build_series fs path var anl_ges (date_range s f) sids ots st
           = (Inr (if anl_ges = ''anl'' then [(''anl'', [])]
                   else if anl_ges = ''ges'' then [(''ges'', [])]
                   else [(''ges'', []), (''anl'', [])]), st)"
    using assms(1) by (auto simp: dr bs0)
  obtain var_name var_units where um: "units_mapping var = Some (var_name, var_units)"
    using assms(2) by (auto simp: units_mapping_def)
  have nm: "nanmax [] =
      Inl (ValueError ''zero-size array to reduction operation fmax which has no identity'')"
    by (simp add: nanmax_def)
  have ps: "\<And>key rest st0. plot_series [] ((key, []) # rest) 0 (Val 0) st0
      = (Inl (ValueError ''zero-size array to reduction operation fmax which has no identity''),
         draw (Scatter [] [] ''red'' ''No Data'') (draw (Plot [] [] ''b'' key) st0))"
    by (simp add: nm Let_def select_def colors_def)
  have mp: "\<And>key rest st0. make_plot ((key, []) # rest) [] var st0
      = (Inl (ValueError ''zero-size array to reduction operation fmax which has no identity''),
         draw (Scatter [] [] ''red'' ''No Data'') (draw (Plot [] [] ''b'' key) (draw Figure st0)))"
    by (simp add: make_plot_def um ps del: plot_series.simps)
  have pts0: "plot_time_series fs strptime path var anl_ges s_time f_time sids ots st
           = (case build_series fs path var anl_ges [] sids ots st of
                (Inl e, st1) \<Rightarrow> (Inl e, st1)
              | (Inr series, st1) \<Rightarrow> make_plot series [] var st1)"
    using assms(1) by (simp add: plot_time_series_def assms(3,4) Let_def dr)
  have pts: "plot_time_series fs strptime path var anl_ges s_time f_time sids ots st
           = (Inl (ValueError ''zero-size array to reduction operation fmax which has no identity''),
              draw (Scatter [] [] ''red'' ''No Data'')
                (draw (Plot [] [] ''b'' (if anl_ges = ''anl'' then ''anl'' else ''ges''))
                  (draw Figure st)))"
    unfolding pts0 bs0 using assms(1) by (auto simp: mp)
  have rd: "reads (snd (plot_time_series fs strptime path var anl_ges s_time f_time sids ots st))
           = reads st"
    unfolding pts by (simp add: draw_def)
  have ne: "ValueError ''zero-size array to reduction operation fmax which has no identity''
           \<noteq> ValueError (not_allowed anl_ges)"
    by (simp add: not_allowed_def)
  from dr bs pts rd ne show ?thesis by blast
qed

theorem plot_time_series_reversed_range_witness:
  "''ges'' \<in> {''anl'', ''ges'', ''both''} \<and> ''t'' \<in> {''t'', ''ps'', ''q''}
   \<and> to_datetime (\<lambda>s. Inl (ValueError ''unused'')) (TDt 473353) = Inr 473353
   \<and> to_datetime (\<lambda>s. Inl (ValueError ''unused'')) (TDt 473352) = Inr 473352
   \<and> (473352 :: int) < 473353
   \<and> plot_time_series example_disk (\<lambda>s. Inl (ValueError ''unused'')) ''/d'' ''t'' ''ges''
        (TDt 473353) (TDt 473352) None None io0
       = (Inl (ValueError ''zero-size array to reduction operation fmax which has no identity''),
          \<lparr>reads = [], stdout = [],
             plt = [Figure, Plot [] [] ''b'' ''ges'', Scatter [] [] ''red'' ''No Data'']\<rparr>)"
proof -
  have h1: "''ges'' \<in> {''anl'', ''ges'', ''both''}" by simp
  have h2: "''t'' \<in> {''t'', ''ps'', ''q''}" by simp
  have h3: "to_datetime (\<lambda>s. Inl (ValueError ''unused'')) (TDt 473353) = Inr 473353"
    by (simp add: to_datetime_def)
  have h4: "to_datetime (\<lambda>s. Inl (ValueError ''unused'')) (TDt 473352) = Inr 473352"
    by (simp add: to_datetime_def)
  have h5: "(473352 :: int) < 473353" by simp
  show ?thesis
    using h1 h2 h3 h4 h5
      plot_time_series_reversed_range [where anl_ges = "''ges''" and var = "''t''"
        and strptime = "\<lambda>s. Inl (ValueError ''unused'')" and s_time = "TDt 473353"
        and f_time = "TDt 473352" and s = 473353 and f = 473352 and fs = example_disk
        and path = "''/d''" and sids = None and ots = None and st = io0, OF h1 h2 h3 h4 h5]
    by (simp add: draw_def io0_def)
qed

section \<open>The plotter\<close>

lemma plot_series_cmds:
  "plot_series tms series color_ind max_val st = (Inr m, st')
     \<Longrightarrow> plt st' = plt st @ series_cmds tms color_ind series"
proof (induction series arbitrary: color_ind max_val st)
  case Nil
  then show ?case by simp
next
  case (Cons kd rest)
  obtain key data where kd: "kd = (key, data)" by (cases kd) auto
  let ?st2 = "draw (Scatter (select tms (map isnan data))
                 (replicate (length (filter id (map isnan data))) 0) ''red'' ''No Data'')
               (draw (Plot tms data (colors ! color_ind) key) st)"
  from Cons.prems obtain v where len: "length tms = length data"
    and nm: "nanmax (map fabs data) = Inr v"
    and rec: "plot_series tms rest ((color_ind + 1) mod length colors)
                (py_max (fmul v (11 / 10)) max_val) ?st2 = (Inr m, st')"
    by (auto simp: kd Let_def split: if_splits sum.splits)
  from Cons.IH [OF rec] show ?case
    by (simp add: kd draw_def)
qed

lemma no_figure_series_cmds: "Figure \<notin> set (series_cmds tms color_ind series)"
  by (induction series arbitrary: color_ind) auto

lemma current_figure_after:
  assumes "Figure \<notin> set cs"
  shows "current_figure (xs @ Figure # cs) = cs"
proof -
  have "takeWhile (\<lambda>c. c \<noteq> Figure) (rev cs @ Figure # rev xs) = rev cs"
  proof -
    have "takeWhile (\<lambda>c. c \<noteq> Figure) (rev cs @ Figure # rev xs)
            = rev cs @ takeWhile (\<lambda>c. c \<noteq> Figure) (Figure # rev xs)"
      by (rule takeWhile_append2) (use assms in auto)
    then show ?thesis by simp
  qed
  then show ?thesis by (simp add: current_figure_def)
qed

lemma labels_series_cmds:
  "List.map_filter artist_label (series_cmds tms color_ind series)
     = concat (map (\<lambda>(key, data). [key, ''No Data'']) series)"
  by (induction series arbitrary: color_ind)
     (auto simp: artist_label_def)

lemma count_no_data:
  "''No Data'' \<notin> fst ` set series
     \<Longrightarrow> count_list (concat (map (\<lambda>(key, data). [key, ''No Data'']) series)) ''No Data''
           = length series"
  by (induction series) auto

lemma map_filter_append:
  "List.map_filter f (xs @ ys) = List.map_filter f xs @ List.map_filter f ys"
  by (simp add: List.map_filter_def)

lemma isnan_fun: "isnan = (\<lambda>v. v = NaN)"
  by (auto simp: fun_eq_iff isnan_def split: fval.splits)

lemma select_nan:
  "select tms (map (\<lambda>v. v = NaN) data) = map fst (filter (\<lambda>(t, v). v = NaN) (zip tms data))"
proof (induction tms arbitrary: data)
  case Nil
  then show ?case by (simp add: select_def)
next
  case (Cons t tms)
  then show ?case by (cases data) (auto simp: select_def)
qed

lemma count_nan:
  "length (filter id (map (\<lambda>v. v = NaN) data)) = length (filter (\<lambda>v. v = NaN) data)"
  by (induction data) auto

lemma scatter_in_series_cmds:
  "(key, data) \<in> set series
     \<Longrightarrow> Scatter (select tms (map isnan data))
           (replicate (length (filter id (map isnan data))) 0) ''red'' ''No Data''
         \<in> set (series_cmds tms color_ind series)"
  by (induction series arbitrary: color_ind) auto

lemma make_plot_cmds:
  assumes "make_plot series tms var st = (Inr (), st')"
  shows "\<exists>tail. plt st' = plt st @ Figure # series_cmds tms 0 series @ tail
           \<and> Figure \<notin> set tail
           \<and> List.map_filter artist_label tail = [''Zero'']"
proof -
  from assms obtain var_name var_units where um: "units_mapping var = Some (var_name, var_units)"
    by (auto simp: make_plot_def split: option.splits)
  obtain r st1 where ps: "plot_series tms series 0 (Val 0) (draw Figure st) = (r, st1)"
    by (cases "plot_series tms series 0 (Val 0) (draw Figure st)") auto
  from assms obtain m where r: "r = Inr (Val m)"
    and st': "st' = (draw Show \<circ> draw (Xticks 45) \<circ> draw Legend \<circ> draw Grid
                      \<circ> draw (Title (var_name @ '' DA Time Series Plot''))
                      \<circ> draw (Ylabel var_units) \<circ> draw (Ylim (- m) m))
                     (draw (Axhline 0 ''Zero'') st1)"
    by (auto simp: make_plot_def um ps Let_def split: sum.splits fval.splits)
  have "plt st1 = plt st @ Figure # series_cmds tms 0 series"
    using plot_series_cmds [OF ps [unfolded r]] by (simp add: draw_def)
  then have "plt st' = plt st @ Figure # series_cmds tms 0 series
               @ [Axhline 0 ''Zero'', Ylim (- m) m, Ylabel var_units,
                  Title (var_name @ '' DA Time Series Plot''), Grid, Legend, Xticks 45, Show]"
    by (simp add: st' draw_def)
  moreover have "List.map_filter artist_label
      [Axhline 0 ''Zero'', Ylim (- m) m, Ylabel var_units,
       Title (var_name @ '' DA Time Series Plot''), Grid, Legend, Xticks 45, Show] = [''Zero'']"
    by (simp add: artist_label_def)
  ultimately show ?thesis by (intro exI conjI) (assumption, simp, assumption)
qed

text \<open>
  Claim C9, as the code has it.  When the chart is rendered, every series has its
  not-a-number positions drawn as a red scatter at \<open>y = 0\<close> labelled \<^verbatim>\<open>No Data\<close>, and the
  legend holds one \<^verbatim>\<open>No Data\<close> entry for each plotted series: the entries share their
  text, but there are as many of them as there are series.
\<close>

theorem make_plot_no_data_entries:
  assumes "make_plot series tms var st = (Inr (), st')"
    and "''No Data'' \<notin> fst ` set series"
  shows "count_list (legend_entries (plt st')) ''No Data'' = length series
       \<and> (\<forall>(key, data) \<in> set series.
            Scatter (map fst (filter (\<lambda>(t, v). v = NaN) (zip tms data)))
                    (replicate (length (filter (\<lambda>v. v = NaN) data)) 0) ''red'' ''No Data''
              \<in> set (plt st'))"
proof -
  from make_plot_cmds [OF assms(1)] obtain tail
    where p: "plt st' = plt st @ Figure # series_cmds tms 0 series @ tail"
      and nf: "Figure \<notin> set tail"
      and tl: "List.map_filter artist_label tail = [''Zero'']"
    by blast
  have "current_figure (plt st') = series_cmds tms 0 series @ tail"
    unfolding p using nf no_figure_series_cmds [of tms 0 series]
    by (intro current_figure_after) simp
  then have "legend_entries (plt st')
      = concat (map (\<lambda>(key, data). [key, ''No Data'']) series) @ [''Zero'']"
    by (simp add: legend_entries_def map_filter_append labels_series_cmds tl)
  then have cnt: "count_list (legend_entries (plt st')) ''No Data'' = length series"
    using count_no_data [OF assms(2)] by simp
  have sc: "\<forall>(key, data) \<in> set series.
            Scatter (map fst (filter (\<lambda>(t, v). v = NaN) (zip tms data)))
                    (replicate (length (filter (\<lambda>v. v = NaN) data)) 0) ''red'' ''No Data''
              \<in> set (plt st')"
  proof (clarify)
    fix key data assume "(key, data) \<in> set series"
    from scatter_in_series_cmds [OF this, of tms 0]
    show "Scatter (map fst (filter (\<lambda>(t, v). v = NaN) (zip tms data)))
                    (replicate (length (filter (\<lambda>v. v = NaN) data)) 0) ''red'' ''No Data''
              \<in> set (plt st')"
      by (simp add: p isnan_fun select_nan count_nan)
  qed
  from cnt sc show ?thesis by blast
qed

theorem make_plot_no_data_entries_witness:
  "make_plot [(''ges'', [Val 1, NaN]), (''anl'', [Val 2, Val (- 4)])] [473352, 473353] ''t'' io0
     = (Inr (),
        \<lparr>reads = [], stdout = [],
           plt = [Figure,
                  Plot [473352, 473353] [Val 1, NaN] ''b'' ''ges'',
                  Scatter [473353] [0] ''red'' ''No Data'',
                  Plot [473352, 473353] [Val 2, Val (- 4)] ''g'' ''anl'',
                  Scatter [] [] ''red'' ''No Data'',
                  Axhline 0 ''Zero'', Ylim (- (22 / 5)) (22 / 5), Ylabel ''Degrees Fahrenheit'',
                  Title ''Temperature DA Time Series Plot'', Grid, Legend, Xticks 45, Show]\<rparr>)
   \<and> ''No Data'' \<notin> fst ` set [(''ges'', [Val 1, NaN]), (''anl'', [Val 2, Val (- 4 :: real)])]
   \<and> count_list (legend_entries (plt (snd (make_plot
        [(''ges'', [Val 1, NaN]), (''anl'', [Val 2, Val (- 4)])] [473352, 473353] ''t'' io0))))
        ''No Data'' = 2"
proof -
  let ?series = "[(''ges'', [Val 1, NaN]), (''anl'', [Val 2, Val (- 4 :: real)])]"
  let ?st' = "\<lparr>reads = [], stdout = [],
           plt = [Figure,
                  Plot [473352, 473353] [Val 1, NaN] ''b'' ''ges'',
                  Scatter [473353] [0] ''red'' ''No Data'',
                  Plot [473352, 473353] [Val 2, Val (- 4)] ''g'' ''anl'',
                  Scatter [] [] ''red'' ''No Data'',
                  Axhline 0 ''Zero'', Ylim (- (22 / 5)) (22 / 5), Ylabel ''Degrees Fahrenheit'',
                  Title ''Temperature DA Time Series Plot'', Grid, Legend, Xticks 45, Show]\<rparr>"
  have h1: "make_plot ?series [473352, 473353] ''t'' io0 = (Inr (), ?st')"
    by (simp add: make_plot_def units_mapping_def Let_def nanmax_def numbers_def fabs_def
        fmul_def py_max_def isnan_def select_def colors_def draw_def io0_def)
  have h2: "''No Data'' \<notin> fst ` set ?series" by simp
  show ?thesis
    using h1 h2 make_plot_no_data_entries [OF h1 h2] by simp
qed

theorem make_plot_no_data_entries_counterexample:
  "legend_entries (plt (snd (make_plot
      [(''ges'', [Val 1, NaN]), (''anl'', [NaN, Val 2])] [473352, 473353] ''t'' io0)))
     = [''ges'', ''No Data'', ''anl'', ''No Data'', ''Zero'']
   \<and> count_list (legend_entries (plt (snd (make_plot
      [(''ges'', [Val 1, NaN]), (''anl'', [NaN, Val 2])] [473352, 473353] ''t'' io0))))
        ''No Data'' \<noteq> 1"
proof -
  have "legend_entries (plt (snd (make_plot
      [(''ges'', [Val 1, NaN]), (''anl'', [NaN, Val 2])] [473352, 473353] ''t'' io0)))
     = [''ges'', ''No Data'', ''anl'', ''No Data'', ''Zero'']"
    by (simp add: make_plot_def units_mapping_def Let_def nanmax_def numbers_def fabs_def
        fmul_def py_max_def isnan_def select_def colors_def draw_def io0_def
        legend_entries_def current_figure_def artist_label_def)
  then show ?thesis by simp
qed

end
